theory Spec2Isabelle
  imports Complex_Main
begin

section \<open>Dual quaternions of spatialmath: the embedding\<close>

text \<open>
  The module \<^verbatim>\<open>spatialmath/DualQuaternion.py\<close> is embedded function by function.
  Numbers are exact reals: a Python float is read as the real number it approximates, so
  an equation proved here is the exact identity behind an equality that the program
  reaches up to rounding. The one place where the sign of a rounding error selects a
  branch is \<^verbatim>\<open>norm\<close>, whose model carries the rounding errors explicitly. Every
  exception of the source is a value of \<open>error\<close>, and a method returns \<open>error + 'a\<close>
  with \<open>Inl\<close> for the exception.
\<close>

datatype error = ValueError | AssertionError | AttributeError

type_synonym vec3 = "real \<times> real \<times> real"
type_synonym mat3 = "vec3 \<times> vec3 \<times> vec3"

subsection \<open>The quaternion collaborator\<close>

text \<open>
  The class \<^verbatim>\<open>Quaternion\<close> and the helpers of \<^verbatim>\<open>spatialmath.base\<close> other than
  \<^verbatim>\<open>symbolic.py\<close> are not part of the sources at hand. Their operations are modelled
  from the specification, which describes them as a quaternion type with Hamilton
  product, conjugate, scalar part, pure-part constructor and \<open>s\<close>/\<open>v\<close> decomposition.
\<close>

datatype quaternion = Quaternion (q_s: real) (q_x: real) (q_y: real) (q_z: real)

text \<open>Modelled from the spec: \<^verbatim>\<open>Quaternion.v\<close>, the vector part of the
  \<open>s\<close>/\<open>v\<close> decomposition.\<close>

definition q_v :: "quaternion \<Rightarrow> vec3" where
  "q_v q = (q_x q, q_y q, q_z q)"

text \<open>Modelled from the spec: \<^verbatim>\<open>Quaternion.vec\<close>, the four components as a flat
  vector, scalar first.\<close>

definition q_vec :: "quaternion \<Rightarrow> real list" where
  "q_vec q = [q_s q, q_x q, q_y q, q_z q]"

text \<open>Modelled from the spec: \<^verbatim>\<open>Quaternion.__mul__\<close> on two quaternions, the
  Hamilton product.\<close>

fun qqmul :: "quaternion \<Rightarrow> quaternion \<Rightarrow> quaternion" where
  "qqmul (Quaternion s1 x1 y1 z1) (Quaternion s2 x2 y2 z2) =
     Quaternion (s1 * s2 - x1 * x2 - y1 * y2 - z1 * z2)
                (s1 * x2 + x1 * s2 + y1 * z2 - z1 * y2)
                (s1 * y2 - x1 * z2 + y1 * s2 + z1 * x2)
                (s1 * z2 + x1 * y2 - y1 * x2 + z1 * s2)"

text \<open>Modelled from the spec: \<^verbatim>\<open>Quaternion.conj\<close>, the conjugate.\<close>

fun qconj :: "quaternion \<Rightarrow> quaternion" where
  "qconj (Quaternion s1 x1 y1 z1) = Quaternion s1 (- x1) (- y1) (- z1)"

text \<open>Modelled from the spec: \<^verbatim>\<open>Quaternion.__add__\<close> and
  \<^verbatim>\<open>Quaternion.__sub__\<close>, component by component.\<close>

fun qadd :: "quaternion \<Rightarrow> quaternion \<Rightarrow> quaternion" where
  "qadd (Quaternion s1 x1 y1 z1) (Quaternion s2 x2 y2 z2) =
     Quaternion (s1 + s2) (x1 + x2) (y1 + y2) (z1 + z2)"

fun qsub :: "quaternion \<Rightarrow> quaternion \<Rightarrow> quaternion" where
  "qsub (Quaternion s1 x1 y1 z1) (Quaternion s2 x2 y2 z2) =
     Quaternion (s1 - s2) (x1 - x2) (y1 - y2) (z1 - z2)"

text \<open>Modelled from the spec: the product of a number and a quaternion
  (\<^verbatim>\<open>Quaternion.__rmul__\<close>), used by the source as \<^verbatim>\<open>0.5 * D\<close> and
  \<^verbatim>\<open>2 * self.dual\<close>.\<close>

fun qscale :: "real \<Rightarrow> quaternion \<Rightarrow> quaternion" where
  "qscale k (Quaternion s1 x1 y1 z1) = Quaternion (k * s1) (k * x1) (k * y1) (k * z1)"

text \<open>Modelled from the spec: \<^verbatim>\<open>Quaternion.Pure\<close>, the pure quaternion of a
  3-vector, and \<^verbatim>\<open>UnitQuaternion()\<close>, the identity rotation.\<close>

fun Pure_q :: "vec3 \<Rightarrow> quaternion" where
  "Pure_q (a, b, c) = Quaternion 0 a b c"

definition UnitQuaternion_id :: quaternion where
  "UnitQuaternion_id = Quaternion 1 0 0 0"

text \<open>Modelled from the spec: \<^verbatim>\<open>Quaternion.matrix\<close>, the 4x4 matrix of
  left multiplication by the quaternion, as a list of rows.\<close>

fun qmatrix :: "quaternion \<Rightarrow> real list list" where
  "qmatrix (Quaternion s1 x1 y1 z1) =
     [[s1, - x1, - y1, - z1],
      [x1, s1, - z1, y1],
      [y1, z1, s1, - x1],
      [z1, - y1, x1, s1]]"

text \<open>Modelled from the spec: construction of a quaternion from a flat vector of four
  numbers; any other length is refused.\<close>

fun Quaternion_of_vec :: "real list \<Rightarrow> error + quaternion" where
  "Quaternion_of_vec [a, b, c, d] = Inr (Quaternion a b c d)"
| "Quaternion_of_vec _ = Inl ValueError"

text \<open>Modelled from the spec: \<^verbatim>\<open>base.q2r\<close>, the rotation matrix of a unit
  quaternion, as three rows.\<close>

fun q2r :: "quaternion \<Rightarrow> mat3" where
  "q2r (Quaternion s1 x1 y1 z1) =
     ((1 - 2 * (y1 * y1 + z1 * z1), 2 * (x1 * y1 - s1 * z1), 2 * (x1 * z1 + s1 * y1)),
      (2 * (x1 * y1 + s1 * z1), 1 - 2 * (x1 * x1 + z1 * z1), 2 * (y1 * z1 - s1 * x1)),
      (2 * (x1 * z1 - s1 * y1), 2 * (y1 * z1 + s1 * x1), 1 - 2 * (x1 * x1 + y1 * y1)))"

text \<open>The squared length of a quaternion, and the matrix-vector product \<open>R @ v\<close>
  and the vector sum used to state what a pose does to a point.\<close>

definition qnorm2 :: "quaternion \<Rightarrow> real" where
  "qnorm2 q = q_s q * q_s q + q_x q * q_x q + q_y q * q_y q + q_z q * q_z q"

fun mat3_vec :: "mat3 \<Rightarrow> vec3 \<Rightarrow> vec3" where
  "mat3_vec ((a11, a12, a13), (a21, a22, a23), (a31, a32, a33)) (v1, v2, v3) =
     (a11 * v1 + a12 * v2 + a13 * v3,
      a21 * v1 + a22 * v2 + a23 * v3,
      a31 * v1 + a32 * v2 + a33 * v3)"

fun vec3_add :: "vec3 \<Rightarrow> vec3 \<Rightarrow> vec3" where
  "vec3_add (a1, a2, a3) (b1, b2, b3) = (a1 + b1, a2 + b2, a3 + b3)"

subsection \<open>symbolic.py\<close>

text \<open>
  \<^verbatim>\<open>sqrt(v)\<close> of \<^verbatim>\<open>spatialmath/base/symbolic.py\<close> on a number: the argument is
  not symbolic, so the call is \<^verbatim>\<open>math.sqrt(v)\<close>, which raises \<^verbatim>\<open>ValueError\<close> on a
  negative argument.
\<close>

definition base_sqrt :: "real \<Rightarrow> error + real" where
  "base_sqrt v = (if v < 0 then Inl ValueError else Inr (sqrt v))"

subsection \<open>Poses\<close>

text \<open>An SE(3) pose, read through its rotation matrix \<open>R\<close> and its translation
  \<open>t\<close>.\<close>

record SE3 =
  R :: mat3
  t :: vec3

subsection \<open>The classes\<close>

datatype pyclass = DualQuaternion_cls | UnitDualQuaternion_cls

record dual_quaternion =
  cls :: pyclass
  real_q :: "quaternion option"
  dual_q :: "quaternion option"

text \<open>What a caller may pass to a constructor: nothing (\<^verbatim>\<open>None\<close>), a quaternion, an
  array-like of numbers, a pose, or a value of some other type.\<close>

datatype arg = ANone | AQuat quaternion | AVec "real list" | APose SE3 | AOther

text \<open>Modelled from the spec: \<^verbatim>\<open>base.isvector(v, n)\<close>, true of an array-like of
  \<open>n\<close> numbers.\<close>

fun isvector :: "arg \<Rightarrow> nat \<Rightarrow> bool" where
  "isvector (AVec xs) n = (length xs = n)"
| "isvector _ n = False"

fun isinstance_Quaternion :: "arg \<Rightarrow> bool" where
  "isinstance_Quaternion (AQuat q) = True"
| "isinstance_Quaternion _ = False"

fun isinstance_SE3 :: "arg \<Rightarrow> bool" where
  "isinstance_SE3 (APose T) = True"
| "isinstance_SE3 _ = False"

text \<open>\<^verbatim>\<open>DualQuaternion.__init__\<close>; the first argument is the class being
  constructed, which the subclass inherits the initialiser with.\<close>

definition DualQuaternion_init :: "pyclass \<Rightarrow> arg \<Rightarrow> arg \<Rightarrow> error + dual_quaternion" where
  "DualQuaternion_init c real' dual' =
     (if real' = ANone \<and> dual' = ANone then
        Inr \<lparr>cls = c, real_q = None, dual_q = None\<rparr>
      else if dual' = ANone \<and> isvector real' 8 then
        (case real' of
           AVec xs \<Rightarrow>
             (case Quaternion_of_vec (take 4 xs) of
                Inl e \<Rightarrow> Inl e
              | Inr p \<Rightarrow>
                  (case Quaternion_of_vec (drop 4 xs) of
                     Inl e \<Rightarrow> Inl e
                   | Inr q \<Rightarrow> Inr \<lparr>cls = c, real_q = Some p, dual_q = Some q\<rparr>))
         | _ \<Rightarrow> Inl ValueError)
      else if real' \<noteq> ANone \<and> dual' \<noteq> ANone then
        (if \<not> isinstance_Quaternion real' then Inl ValueError
         else if \<not> isinstance_Quaternion dual' then Inl ValueError
         else (case (real', dual') of
                 (AQuat p, AQuat q) \<Rightarrow> Inr \<lparr>cls = c, real_q = Some p, dual_q = Some q\<rparr>
               | _ \<Rightarrow> Inl ValueError))
      else Inl ValueError)"

definition DualQuaternion :: "arg \<Rightarrow> arg \<Rightarrow> error + dual_quaternion" where
  "DualQuaternion real' dual' = DualQuaternion_init DualQuaternion_cls real' dual'"

text \<open>\<^verbatim>\<open>UnitDualQuaternion.__init__\<close>. The conversion \<^verbatim>\<open>UnitQuaternion(T.R)\<close> of a
  rotation matrix to a unit quaternion is not among the sources, so it is the parameter
  \<open>r2q\<close>.\<close>

definition UnitDualQuaternion :: "(mat3 \<Rightarrow> quaternion) \<Rightarrow> arg \<Rightarrow> arg \<Rightarrow> error + dual_quaternion" where
  "UnitDualQuaternion r2q real' dual' =
     (if dual' = ANone \<and> isinstance_SE3 real' then
        (case real' of
           APose T \<Rightarrow>
             (let S = r2q (R T);
                  D = Pure_q (t T)
              in DualQuaternion_init UnitDualQuaternion_cls
                   (AQuat S) (AQuat (qqmul (qscale (1 / 2) D) S)))
         | _ \<Rightarrow> Inl ValueError)
      else DualQuaternion_init UnitDualQuaternion_cls real' dual')"

text \<open>\<^verbatim>\<open>DualQuaternion.Pure\<close>; \<^verbatim>\<open>base.getvector(x, 3)\<close> accepts three numbers.\<close>

fun getvector3 :: "real list \<Rightarrow> error + vec3" where
  "getvector3 [a, b, c] = Inr (a, b, c)"
| "getvector3 _ = Inl ValueError"

definition Pure :: "real list \<Rightarrow> error + dual_quaternion" where
  "Pure xs =
     (case getvector3 xs of
        Inl e \<Rightarrow> Inl e
      | Inr v \<Rightarrow> DualQuaternion (AQuat UnitQuaternion_id) (AQuat (Pure_q v)))"

text \<open>
  \<^verbatim>\<open>DualQuaternion.norm\<close>: there is no assertion here, so on an empty object the first
  method call on \<^verbatim>\<open>None\<close> raises \<^verbatim>\<open>AttributeError\<close>. The scalar parts \<^verbatim>\<open>a.s\<close>
  and \<^verbatim>\<open>b.s\<close> that reach \<^verbatim>\<open>sqrt\<close> are computed in double arithmetic and
  \<^verbatim>\<open>math.sqrt\<close> branches on their sign. The parameters \<open>ea\<close> and \<open>eb\<close> are the
  rounding errors of that computation, the computed \<^verbatim>\<open>a.s\<close> and \<^verbatim>\<open>b.s\<close> minus
  their exact values (both zero where the arithmetic is exact), so that the refusal of a
  negative argument stays a branch of the model where the exact scalar part is zero.
\<close>

definition norm_dq :: "real \<Rightarrow> real \<Rightarrow> dual_quaternion \<Rightarrow> error + (real \<times> real)" where
  "norm_dq ea eb self =
     (case real_q self of
        None \<Rightarrow> Inl AttributeError
      | Some p \<Rightarrow>
          (case dual_q self of
             None \<Rightarrow> Inl AttributeError
           | Some q \<Rightarrow>
               (let a = qqmul p (qconj p);
                    b = qadd (qqmul p (qconj q)) (qqmul q (qconj p))
                in case base_sqrt (q_s a + ea) of
                     Inl e \<Rightarrow> Inl e
                   | Inr n0 \<Rightarrow>
                       (case base_sqrt (q_s b + eb) of
                          Inl e \<Rightarrow> Inl e
                        | Inr n1 \<Rightarrow> Inr (n0, n1)))))"

text \<open>\<^verbatim>\<open>DualQuaternion.conj\<close>: always builds a plain \<^verbatim>\<open>DualQuaternion\<close>.\<close>

definition conj_dq :: "dual_quaternion \<Rightarrow> error + dual_quaternion" where
  "conj_dq self =
     (case real_q self of
        None \<Rightarrow> Inl AttributeError
      | Some p \<Rightarrow>
          (case dual_q self of
             None \<Rightarrow> Inl AttributeError
           | Some q \<Rightarrow> DualQuaternion (AQuat (qconj p)) (AQuat (qconj q))))"

text \<open>\<^verbatim>\<open>DualQuaternion.__add__\<close> and \<^verbatim>\<open>DualQuaternion.__sub__\<close>.\<close>

definition add_dq :: "dual_quaternion \<Rightarrow> dual_quaternion \<Rightarrow> error + dual_quaternion" where
  "add_dq self right =
     (case (real_q self, dual_q self) of
        (Some p, Some q) \<Rightarrow>
          (case (real_q right, dual_q right) of
             (Some p', Some q') \<Rightarrow> DualQuaternion (AQuat (qadd p p')) (AQuat (qadd q q'))
           | _ \<Rightarrow> Inl AssertionError)
      | _ \<Rightarrow> Inl AssertionError)"

definition sub_dq :: "dual_quaternion \<Rightarrow> dual_quaternion \<Rightarrow> error + dual_quaternion" where
  "sub_dq self right =
     (case (real_q self, dual_q self) of
        (Some p, Some q) \<Rightarrow>
          (case (real_q right, dual_q right) of
             (Some p', Some q') \<Rightarrow> DualQuaternion (AQuat (qsub p p')) (AQuat (qsub q q'))
           | _ \<Rightarrow> Inl AssertionError)
      | _ \<Rightarrow> Inl AssertionError)"

text \<open>
  \<^verbatim>\<open>DualQuaternion.__mul__\<close>. The right operand is a dual quaternion or an array-like
  of numbers. The result is a dual quaternion (product branch), a 3-vector (point branch)
  or \<^verbatim>\<open>None\<close> (no branch taken).
\<close>

datatype operand = DQ dual_quaternion | Vec "real list"

datatype mul_result = RDQ dual_quaternion | RVec vec3 | RNone

text \<open>Reading \<^verbatim>\<open>right.real\<close> and \<^verbatim>\<open>right.dual\<close>, as the second assertion does
  before any test of the operand's type: an array has no attribute \<^verbatim>\<open>dual\<close> and a
  list has no attribute \<^verbatim>\<open>real\<close> either, so on an array-like the read raises
  \<^verbatim>\<open>AttributeError\<close>.\<close>

fun getattr_real_dual :: "operand \<Rightarrow> error + (quaternion option \<times> quaternion option)" where
  "getattr_real_dual (DQ b) = Inr (real_q b, dual_q b)"
| "getattr_real_dual (Vec xs) = Inl AttributeError"

fun isinstance_DualQuaternion :: "operand \<Rightarrow> bool" where
  "isinstance_DualQuaternion (DQ b) = True"
| "isinstance_DualQuaternion (Vec xs) = False"

fun isvector3 :: "operand \<Rightarrow> bool" where
  "isvector3 (Vec xs) = (length xs = 3)"
| "isvector3 (DQ b) = False"

text \<open>The product branch: the body under \<^verbatim>\<open>isinstance(right, DualQuaternion)\<close>, for
  operands whose parts are \<open>p, q\<close> and \<open>p', q'\<close>. The class test of the source names
  \<^verbatim>\<open>self\<close> in both conjuncts.\<close>

definition product :: "(mat3 \<Rightarrow> quaternion) \<Rightarrow> pyclass \<Rightarrow> quaternion \<Rightarrow> quaternion \<Rightarrow>
    quaternion \<Rightarrow> quaternion \<Rightarrow> error + dual_quaternion" where
  "product r2q self_cls p q p' q' =
     (let real' = qqmul p p';
          dual' = qadd (qqmul p q') (qqmul q p')
      in if self_cls = UnitDualQuaternion_cls \<and> self_cls = UnitDualQuaternion_cls
         then UnitDualQuaternion r2q (AQuat real') (AQuat dual')
         else DualQuaternion (AQuat real') (AQuat dual'))"

text \<open>\<^verbatim>\<open>__mul__\<close> on a right operand that is a dual quaternion: the two
  assertions, then the product branch.\<close>

definition mul_DQ :: "(mat3 \<Rightarrow> quaternion) \<Rightarrow> dual_quaternion \<Rightarrow> dual_quaternion \<Rightarrow>
    error + dual_quaternion" where
  "mul_DQ r2q self right =
     (if \<not> (real_q self \<noteq> None \<and> dual_q self \<noteq> None) then Inl AssertionError
      else if \<not> (real_q right \<noteq> None \<and> dual_q right \<noteq> None) then Inl AssertionError
      else (case (real_q self, dual_q self, real_q right, dual_q right) of
              (Some p, Some q, Some p', Some q') \<Rightarrow> product r2q (cls self) p q p' q'
            | _ \<Rightarrow> Inl AssertionError))"

text \<open>The point branch: the body under
  \<^verbatim>\<open>isinstance(self, UnitDualQuaternion) and base.isvector(right, 3)\<close>, which is
  \<^verbatim>\<open>self * DualQuaternion.Pure(v) * self.conj()\<close> and then \<^verbatim>\<open>vp.dual.v\<close>.\<close>

definition transform_point :: "(mat3 \<Rightarrow> quaternion) \<Rightarrow> dual_quaternion \<Rightarrow> real list \<Rightarrow>
    error + vec3" where
  "transform_point r2q self right =
     (case Pure right of
        Inl e \<Rightarrow> Inl e
      | Inr pv \<Rightarrow>
          (case mul_DQ r2q self pv of
             Inl e \<Rightarrow> Inl e
           | Inr sp \<Rightarrow>
               (case conj_dq self of
                  Inl e \<Rightarrow> Inl e
                | Inr sc \<Rightarrow>
                    (case mul_DQ r2q sp sc of
                       Inl e \<Rightarrow> Inl e
                     | Inr vp \<Rightarrow>
                         (case dual_q vp of
                            None \<Rightarrow> Inl AttributeError
                          | Some d \<Rightarrow> Inr (q_v d))))))"

definition mul_dq :: "(mat3 \<Rightarrow> quaternion) \<Rightarrow> dual_quaternion \<Rightarrow> operand \<Rightarrow> error + mul_result" where
  "mul_dq r2q self right =
     (if \<not> (real_q self \<noteq> None \<and> dual_q self \<noteq> None) then Inl AssertionError
      else
        (case getattr_real_dual right of
           Inl e \<Rightarrow> Inl e
         | Inr (right_real, right_dual) \<Rightarrow>
             if \<not> (right_real \<noteq> None \<and> right_dual \<noteq> None) then Inl AssertionError
             else if isinstance_DualQuaternion right then
               (case right of
                  DQ b \<Rightarrow>
                    (case mul_DQ r2q self b of
                       Inl e \<Rightarrow> Inl e
                     | Inr c \<Rightarrow> Inr (RDQ c))
                | Vec xs \<Rightarrow> Inr RNone)
             else if cls self = UnitDualQuaternion_cls \<and> isvector3 right then
               (case right of
                  Vec xs \<Rightarrow>
                    (case transform_point r2q self xs of
                       Inl e \<Rightarrow> Inl e
                     | Inr v \<Rightarrow> Inr (RVec v))
                | DQ b \<Rightarrow> Inr RNone)
             else Inr RNone))"

text \<open>\<^verbatim>\<open>DualQuaternion.matrix\<close> and \<^verbatim>\<open>DualQuaternion.vec\<close>, with
  \<^verbatim>\<open>np.zeros\<close>, \<^verbatim>\<open>np.block\<close> on a 2x2 grid of blocks, \<^verbatim>\<open>np.r_\<close> and the
  product \<^verbatim>\<open>@\<close> of a matrix and a vector.\<close>

definition np_zeros :: "nat \<Rightarrow> nat \<Rightarrow> real list list" where
  "np_zeros m n = replicate m (replicate n 0)"

definition np_block :: "real list list \<Rightarrow> real list list \<Rightarrow> real list list \<Rightarrow> real list list \<Rightarrow>
    real list list" where
  "np_block A B C D = map2 (@) A B @ map2 (@) C D"

definition matvec :: "real list list \<Rightarrow> real list \<Rightarrow> real list" where
  "matvec M u = map (\<lambda>row. sum_list (map2 (*) row u)) M"

definition matrix_dq :: "dual_quaternion \<Rightarrow> error + real list list" where
  "matrix_dq self =
     (case (real_q self, dual_q self) of
        (Some p, Some q) \<Rightarrow> Inr (np_block (qmatrix p) (np_zeros 4 4) (qmatrix q) (qmatrix p))
      | _ \<Rightarrow> Inl AssertionError)"

definition vec_dq :: "dual_quaternion \<Rightarrow> error + real list" where
  "vec_dq self =
     (case (real_q self, dual_q self) of
        (Some p, Some q) \<Rightarrow> Inr (q_vec p @ q_vec q)
      | _ \<Rightarrow> Inl AssertionError)"

text \<open>\<^verbatim>\<open>UnitDualQuaternion.SE3\<close>; \<^verbatim>\<open>base.rt2tr\<close> and the pose constructor put
  the rotation and the translation into a pose.\<close>

definition SE3_dq :: "dual_quaternion \<Rightarrow> error + SE3" where
  "SE3_dq self =
     (case real_q self of
        None \<Rightarrow> Inl AttributeError
      | Some p \<Rightarrow>
          (case dual_q self of
             None \<Rightarrow> Inl AttributeError
           | Some q \<Rightarrow> Inr \<lparr>R = q2r p, t = q_v (qqmul (qscale 2 q) (qconj p))\<rparr>))"

subsection \<open>The rigid-motion invariant\<close>

text \<open>
  A unit dual quaternion stands for a rigid motion when its real part has length one and
  its dual part is half the pure quaternion of a translation times the real part. The
  translation can only be the one that \<^verbatim>\<open>SE3()\<close> reads back, which makes the
  predicate computable; \<open>rigid_invariant_iff\<close> below shows that it says the same as
  the formulation with some translation.
\<close>

definition rigid_invariant :: "dual_quaternion \<Rightarrow> bool" where
  "rigid_invariant d =
     (case (real_q d, dual_q d) of
        (Some p, Some q) \<Rightarrow>
          qnorm2 p = 1 \<and>
          q = qqmul (qscale (1 / 2) (Pure_q (q_v (qqmul (qscale 2 q) (qconj p))))) p
      | _ \<Rightarrow> False)"

section \<open>Properties\<close>

subsection \<open>Constructors on two quaternions and on a pose\<close>

lemma init_quats:
  "DualQuaternion_init c (AQuat p) (AQuat q) = Inr \<lparr>cls = c, real_q = Some p, dual_q = Some q\<rparr>"
  by (simp add: DualQuaternion_init_def)

lemma DualQuaternion_quats:
  "DualQuaternion (AQuat p) (AQuat q) =
     Inr \<lparr>cls = DualQuaternion_cls, real_q = Some p, dual_q = Some q\<rparr>"
  by (simp add: DualQuaternion_def init_quats)

lemma UnitDualQuaternion_quats:
  "UnitDualQuaternion r2q (AQuat p) (AQuat q) =
     Inr \<lparr>cls = UnitDualQuaternion_cls, real_q = Some p, dual_q = Some q\<rparr>"
  by (simp add: UnitDualQuaternion_def init_quats)

lemma UnitDualQuaternion_pose:
  "UnitDualQuaternion r2q (APose T) ANone =
     Inr \<lparr>cls = UnitDualQuaternion_cls, real_q = Some (r2q (R T)),
          dual_q = Some (qqmul (qscale (1 / 2) (Pure_q (t T))) (r2q (R T)))\<rparr>"
  by (simp add: UnitDualQuaternion_def init_quats Let_def)

subsection \<open>Conjugation\<close>

lemma qconj_qconj: "qconj (qconj p) = p"
  by (cases p) simp

lemma conj_dq_full:
  "real_q d = Some p \<Longrightarrow> dual_q d = Some q \<Longrightarrow>
   conj_dq d = Inr \<lparr>cls = DualQuaternion_cls, real_q = Some (qconj p), dual_q = Some (qconj q)\<rparr>"
  by (simp add: conj_dq_def DualQuaternion_quats)

text \<open>
  Claim C9. For a dual quaternion \<open>d\<close> with both parts set, \<open>(p, q)\<close>, \<^verbatim>\<open>conj\<close>
  returns a new \<^verbatim>\<open>DualQuaternion\<close> with parts \<open>(conj p, conj q)\<close>, and conjugating
  that result gives back the real part \<open>p\<close> and the dual part \<open>q\<close>. (The result is
  always of the base class, whatever the class of \<open>d\<close>.)
\<close>

theorem conj_involution:
  assumes "real_q d = Some p" and "dual_q d = Some q"
  shows "conj_dq d =
           Inr \<lparr>cls = DualQuaternion_cls, real_q = Some (qconj p), dual_q = Some (qconj q)\<rparr>
         \<and> (case conj_dq d of Inl e \<Rightarrow> Inl e | Inr d' \<Rightarrow> conj_dq d') =
           Inr \<lparr>cls = DualQuaternion_cls, real_q = Some p, dual_q = Some q\<rparr>"
  using assms by (simp add: conj_dq_full qconj_qconj)

theorem conj_involution_witness:
  "conj_dq \<lparr>cls = UnitDualQuaternion_cls, real_q = Some (Quaternion 1 2 3 4),
            dual_q = Some (Quaternion 5 6 7 8)\<rparr> =
     Inr \<lparr>cls = DualQuaternion_cls, real_q = Some (Quaternion 1 (- 2) (- 3) (- 4)),
          dual_q = Some (Quaternion 5 (- 6) (- 7) (- 8))\<rparr>
   \<and> (case conj_dq \<lparr>cls = UnitDualQuaternion_cls, real_q = Some (Quaternion 1 2 3 4),
            dual_q = Some (Quaternion 5 6 7 8)\<rparr> of Inl e \<Rightarrow> Inl e | Inr d' \<Rightarrow> conj_dq d') =
     Inr \<lparr>cls = DualQuaternion_cls, real_q = Some (Quaternion 1 2 3 4),
          dual_q = Some (Quaternion 5 6 7 8)\<rparr>"
proof -
  have "conj_dq \<lparr>cls = UnitDualQuaternion_cls, real_q = Some (Quaternion 1 2 3 4),
            dual_q = Some (Quaternion 5 6 7 8)\<rparr> =
     Inr \<lparr>cls = DualQuaternion_cls, real_q = Some (qconj (Quaternion 1 2 3 4)),
          dual_q = Some (qconj (Quaternion 5 6 7 8))\<rparr>
   \<and> (case conj_dq \<lparr>cls = UnitDualQuaternion_cls, real_q = Some (Quaternion 1 2 3 4),
            dual_q = Some (Quaternion 5 6 7 8)\<rparr> of Inl e \<Rightarrow> Inl e | Inr d' \<Rightarrow> conj_dq d') =
     Inr \<lparr>cls = DualQuaternion_cls, real_q = Some (Quaternion 1 2 3 4),
          dual_q = Some (Quaternion 5 6 7 8)\<rparr>"
    by (rule conj_involution) simp_all
  then show ?thesis unfolding qconj.simps .
qed

subsection \<open>Quaternion algebra\<close>

lemma qnorm2_qqmul: "qnorm2 (qqmul a b) = qnorm2 a * qnorm2 b"
  by (cases a; cases b) (simp add: qnorm2_def algebra_simps)

lemma q_s_norm_a: "q_s (qqmul p (qconj p)) = qnorm2 p"
  by (cases p) (simp add: qnorm2_def)

lemma q_s_norm_b:
  "q_s (qadd (qqmul p (qconj q)) (qqmul q (qconj p))) = 2 * q_s (qqmul q (qconj p))"
  by (cases p; cases q) (simp add: algebra_simps)

lemma rigid_dual_iff:
  assumes "qnorm2 p = 1"
  shows "q = qqmul (qscale (1 / 2) (Pure_q (q_v (qqmul (qscale 2 q) (qconj p))))) p
         \<longleftrightarrow> q_s (qqmul q (qconj p)) = 0"
proof (cases p; cases q)
  fix s1 x1 y1 z1 s2 x2 y2 z2
  assume p: "p = Quaternion s1 x1 y1 z1" and q: "q = Quaternion s2 x2 y2 z2"
  have n: "s1 * s1 + x1 * x1 + y1 * y1 + z1 * z1 = 1"
    using assms by (simp add: p qnorm2_def)
  define w where "w = s2 * s1 + x2 * x1 + y2 * y1 + z2 * z1"
  have e1: "qqmul (qscale (1 / 2) (Pure_q (q_v (qqmul (qscale 2 q) (qconj p))))) p =
     Quaternion (s2 * (s1 * s1 + x1 * x1 + y1 * y1 + z1 * z1) - w * s1)
                (x2 * (s1 * s1 + x1 * x1 + y1 * y1 + z1 * z1) - w * x1)
                (y2 * (s1 * s1 + x1 * x1 + y1 * y1 + z1 * z1) - w * y1)
                (z2 * (s1 * s1 + x1 * x1 + y1 * y1 + z1 * z1) - w * z1)"
    by (simp add: p q q_v_def w_def algebra_simps)
  have e2: "q_s (qqmul q (qconj p)) = w"
    by (simp add: p q w_def)
  show ?thesis
  proof
    assume "q = qqmul (qscale (1 / 2) (Pure_q (q_v (qqmul (qscale 2 q) (qconj p))))) p"
    then have ws: "w * s1 = 0" "w * x1 = 0" "w * y1 = 0" "w * z1 = 0"
      unfolding e1 n by (simp_all add: q)
    have "w * (s1 * s1 + x1 * x1 + y1 * y1 + z1 * z1) =
        (w * s1) * s1 + (w * x1) * x1 + (w * y1) * y1 + (w * z1) * z1"
      by (simp add: algebra_simps)
    also have "\<dots> = 0" unfolding ws by simp
    finally have "w * (s1 * s1 + x1 * x1 + y1 * y1 + z1 * z1) = 0" .
    then show "q_s (qqmul q (qconj p)) = 0" unfolding n e2 by simp
  next
    assume "q_s (qqmul q (qconj p)) = 0"
    then have "w = 0" unfolding e2 .
    then show "q = qqmul (qscale (1 / 2) (Pure_q (q_v (qqmul (qscale 2 q) (qconj p))))) p"
      unfolding e1 n by (simp add: q)
  qed
qed

lemma translation_back:
  "q_v (qqmul (qscale 2 (qqmul (qscale (1 / 2) (Pure_q (a, b, c))) p)) (qconj p)) =
     (qnorm2 p * a, qnorm2 p * b, qnorm2 p * c)"
  by (cases p) (simp add: q_v_def qnorm2_def algebra_simps)

lemma pose_dual_scalar:
  "q_s (qqmul (qqmul (qscale (1 / 2) (Pure_q v)) p) (qconj p)) = 0"
  by (cases p; cases v) (simp add: algebra_simps)

lemma product_dual_scalar:
  "q_s (qqmul (qadd (qqmul pa qb) (qqmul qa pb)) (qconj (qqmul pa pb))) =
     qnorm2 pb * q_s (qqmul qa (qconj pa)) + qnorm2 pa * q_s (qqmul qb (qconj pb))"
  by (cases pa; cases pb; cases qa; cases qb) (simp add: qnorm2_def algebra_simps)

subsection \<open>Product, norm and the invariant\<close>

lemma mul_DQ_full:
  assumes "real_q a = Some p" and "dual_q a = Some q"
    and "real_q b = Some p'" and "dual_q b = Some q'"
  shows "mul_DQ r2q a b =
     Inr \<lparr>cls = cls a, real_q = Some (qqmul p p'),
          dual_q = Some (qadd (qqmul p q') (qqmul q p'))\<rparr>"
proof (cases "cls a")
  case DualQuaternion_cls
  with assms show ?thesis
    by (simp add: mul_DQ_def product_def DualQuaternion_quats Let_def)
next
  case UnitDualQuaternion_cls
  with assms show ?thesis
    by (simp add: mul_DQ_def product_def UnitDualQuaternion_quats Let_def)
qed

lemma mul_dq_full:
  assumes "real_q a = Some p" and "dual_q a = Some q"
    and "real_q b = Some p'" and "dual_q b = Some q'"
  shows "mul_dq r2q a (DQ b) =
     Inr (RDQ \<lparr>cls = cls a, real_q = Some (qqmul p p'),
               dual_q = Some (qadd (qqmul p q') (qqmul q p'))\<rparr>)"
  using assms by (simp add: mul_dq_def mul_DQ_full [OF assms])

lemma mul_dq_Vec:
  "real_q a = Some p \<Longrightarrow> dual_q a = Some q \<Longrightarrow> mul_dq r2q a (Vec xs) = Inl AttributeError"
  by (simp add: mul_dq_def)

lemma norm_dq_full:
  assumes "real_q d = Some p" and "dual_q d = Some q"
  shows "norm_dq ea eb d =
     (if q_s (qqmul p (qconj p)) + ea < 0 then Inl ValueError
      else if q_s (qadd (qqmul p (qconj q)) (qqmul q (qconj p))) + eb < 0 then Inl ValueError
      else Inr (sqrt (q_s (qqmul p (qconj p)) + ea),
                sqrt (q_s (qadd (qqmul p (qconj q)) (qqmul q (qconj p))) + eb)))"
  using assms by (simp add: norm_dq_def base_sqrt_def Let_def)

lemma norm_dq_rigid:
  assumes "rigid_invariant d"
  shows "norm_dq ea eb d =
     (if 1 + ea < 0 then Inl ValueError
      else if eb < 0 then Inl ValueError
      else Inr (sqrt (1 + ea), sqrt eb))"
proof -
  from assms obtain p q where pq: "real_q d = Some p" "dual_q d = Some q"
    and u: "qnorm2 p = 1"
    and e: "q = qqmul (qscale (1 / 2) (Pure_q (q_v (qqmul (qscale 2 q) (qconj p))))) p"
    by (auto simp: rigid_invariant_def split: option.splits)
  from e have z: "q_s (qqmul q (qconj p)) = 0"
    using rigid_dual_iff [OF u] by blast
  show ?thesis
    by (simp add: norm_dq_full [OF pq] q_s_norm_a q_s_norm_b u z)
qed

lemma rigid_invariant_pose:
  assumes "qnorm2 (r2q (R T)) = 1"
  shows "rigid_invariant \<lparr>cls = c, real_q = Some (r2q (R T)),
          dual_q = Some (qqmul (qscale (1 / 2) (Pure_q (t T))) (r2q (R T)))\<rparr>"
  using assms rigid_dual_iff [OF assms, of "qqmul (qscale (1 / 2) (Pure_q (t T))) (r2q (R T))"]
  by (simp add: rigid_invariant_def pose_dual_scalar)

lemma rigid_invariant_product:
  assumes "rigid_invariant a" and "rigid_invariant b"
    and "real_q a = Some p" and "dual_q a = Some q"
    and "real_q b = Some p'" and "dual_q b = Some q'"
  shows "rigid_invariant \<lparr>cls = c, real_q = Some (qqmul p p'),
          dual_q = Some (qadd (qqmul p q') (qqmul q p'))\<rparr>"
proof -
  from assms have u: "qnorm2 p = 1" and u': "qnorm2 p' = 1"
    and e: "q = qqmul (qscale (1 / 2) (Pure_q (q_v (qqmul (qscale 2 q) (qconj p))))) p"
    and e': "q' = qqmul (qscale (1 / 2) (Pure_q (q_v (qqmul (qscale 2 q') (qconj p'))))) p'"
    by (auto simp: rigid_invariant_def)
  from e have z: "q_s (qqmul q (qconj p)) = 0"
    using rigid_dual_iff [OF u] by blast
  from e' have z': "q_s (qqmul q' (qconj p')) = 0"
    using rigid_dual_iff [OF u'] by blast
  have n: "qnorm2 (qqmul p p') = 1"
    by (simp add: qnorm2_qqmul u u')
  have "q_s (qqmul (qadd (qqmul p q') (qqmul q p')) (qconj (qqmul p p'))) = 0"
    by (simp add: product_dual_scalar z z')
  then have "qadd (qqmul p q') (qqmul q p') =
      qqmul (qscale (1 / 2) (Pure_q (q_v (qqmul (qscale 2 (qadd (qqmul p q') (qqmul q p')))
        (qconj (qqmul p p')))))) (qqmul p p')"
    using rigid_dual_iff [OF n] by blast
  with n show ?thesis
    by (simp add: rigid_invariant_def)
qed

lemma rigid_invariant_iff:
  "rigid_invariant d \<longleftrightarrow>
     (\<exists>p v. real_q d = Some p \<and> qnorm2 p = 1 \<and>
            dual_q d = Some (qqmul (qscale (1 / 2) (Pure_q v)) p))"
proof
  assume "rigid_invariant d"
  then obtain p q where p: "real_q d = Some p" and q: "dual_q d = Some q"
    and u: "qnorm2 p = 1"
    and e: "q = qqmul (qscale (1 / 2) (Pure_q (q_v (qqmul (qscale 2 q) (qconj p))))) p"
    by (auto simp: rigid_invariant_def split: option.splits)
  from q have "dual_q d =
      Some (qqmul (qscale (1 / 2) (Pure_q (q_v (qqmul (qscale 2 q) (qconj p))))) p)"
    by (simp only: e [symmetric])
  with p u show "\<exists>p v. real_q d = Some p \<and> qnorm2 p = 1 \<and>
            dual_q d = Some (qqmul (qscale (1 / 2) (Pure_q v)) p)"
    by blast
next
  assume "\<exists>p v. real_q d = Some p \<and> qnorm2 p = 1 \<and>
            dual_q d = Some (qqmul (qscale (1 / 2) (Pure_q v)) p)"
  then obtain p v where p: "real_q d = Some p" and u: "qnorm2 p = 1"
    and q: "dual_q d = Some (qqmul (qscale (1 / 2) (Pure_q v)) p)" by blast
  have "qqmul (qscale (1 / 2) (Pure_q v)) p =
      qqmul (qscale (1 / 2) (Pure_q (q_v (qqmul (qscale 2 (qqmul (qscale (1 / 2) (Pure_q v)) p))
        (qconj p))))) p"
    using rigid_dual_iff [OF u, of "qqmul (qscale (1 / 2) (Pure_q v)) p"]
    by (simp add: pose_dual_scalar)
  with p q u show "rigid_invariant d"
    by (simp add: rigid_invariant_def)
qed


subsection \<open>Poses and back\<close>

text \<open>
  Claim C1. For a pose \<open>T\<close> with rotation \<open>R\<close> and translation \<open>t\<close>,
  \<^verbatim>\<open>UnitDualQuaternion(T)\<close> has the real part \<^verbatim>\<open>UnitQuaternion(R)\<close> and the dual part
  \<open>0.5 * Pure(t) * real\<close>, and \<^verbatim>\<open>SE3()\<close> of it is \<open>T\<close> again: the rotation matrix
  is \<open>R\<close> and the vector part of \<open>2 * dual * conj(real)\<close> is \<open>t\<close>. The conversion
  \<^verbatim>\<open>UnitQuaternion(R)\<close> is taken with its contract: it returns a quaternion of length
  one whose rotation matrix is \<open>R\<close>.
\<close>

theorem se3_round_trip:
  assumes "qnorm2 (r2q (R T)) = 1" and "q2r (r2q (R T)) = R T"
  shows "UnitDualQuaternion r2q (APose T) ANone =
           Inr \<lparr>cls = UnitDualQuaternion_cls, real_q = Some (r2q (R T)),
                dual_q = Some (qqmul (qscale (1 / 2) (Pure_q (t T))) (r2q (R T)))\<rparr>
         \<and> (case UnitDualQuaternion r2q (APose T) ANone of
              Inl e \<Rightarrow> Inl e | Inr d \<Rightarrow> SE3_dq d) = Inr T"
proof -
  obtain a b c where v: "t T = (a, b, c)" by (cases "t T")
  have "q_v (qqmul (qscale 2 (qqmul (qscale (1 / 2) (Pure_q (t T))) (r2q (R T))))
          (qconj (r2q (R T)))) = t T"
    unfolding v translation_back assms(1) by simp
  then show ?thesis
    by (simp add: UnitDualQuaternion_pose SE3_dq_def assms(2))
qed

theorem se3_round_trip_witness:
  "qnorm2 (Quaternion (1 / 2) (1 / 2) (1 / 2) (1 / 2)) = 1
   \<and> q2r (Quaternion (1 / 2) (1 / 2) (1 / 2) (1 / 2)) = ((0, 0, 1), (1, 0, 0), (0, 1, 0))
   \<and> UnitDualQuaternion (\<lambda>M. Quaternion (1 / 2) (1 / 2) (1 / 2) (1 / 2))
        (APose \<lparr>R = ((0, 0, 1), (1, 0, 0), (0, 1, 0)), t = (1, 2, 3)\<rparr>) ANone =
       Inr \<lparr>cls = UnitDualQuaternion_cls,
            real_q = Some (Quaternion (1 / 2) (1 / 2) (1 / 2) (1 / 2)),
            dual_q = Some (Quaternion (- 3 / 2) 0 1 (1 / 2))\<rparr>
   \<and> (case UnitDualQuaternion (\<lambda>M. Quaternion (1 / 2) (1 / 2) (1 / 2) (1 / 2))
        (APose \<lparr>R = ((0, 0, 1), (1, 0, 0), (0, 1, 0)), t = (1, 2, 3)\<rparr>) ANone of
         Inl e \<Rightarrow> Inl e | Inr d \<Rightarrow> SE3_dq d) =
       Inr \<lparr>R = ((0, 0, 1), (1, 0, 0), (0, 1, 0)), t = (1, 2, 3)\<rparr>"
proof -
  let ?r2q = "\<lambda>M :: mat3. Quaternion (1 / 2) (1 / 2) (1 / 2) (1 / 2)"
  let ?T = "\<lparr>R = ((0, 0, 1), (1, 0, 0), (0, 1, 0)), t = (1, 2, 3)\<rparr> :: SE3"
  have h1: "qnorm2 (?r2q (R ?T)) = 1"
    by (simp add: qnorm2_def)
  have h2: "q2r (?r2q (R ?T)) = R ?T"
    by simp
  have d: "qqmul (qscale (1 / 2) (Pure_q (t ?T))) (?r2q (R ?T)) = Quaternion (- 3 / 2) 0 1 (1 / 2)"
    by simp
  note rt = se3_round_trip [of ?r2q ?T, OF h1 h2]
  have a: "UnitDualQuaternion ?r2q (APose ?T) ANone =
       Inr \<lparr>cls = UnitDualQuaternion_cls,
            real_q = Some (Quaternion (1 / 2) (1 / 2) (1 / 2) (1 / 2)),
            dual_q = Some (Quaternion (- 3 / 2) 0 1 (1 / 2))\<rparr>"
    using rt [THEN conjunct1] unfolding d by simp
  have b: "(case UnitDualQuaternion ?r2q (APose ?T) ANone of
         Inl e \<Rightarrow> Inl e | Inr d \<Rightarrow> SE3_dq d) = Inr ?T"
    using rt [THEN conjunct2] by simp
  from h1 h2 a b show ?thesis
    by simp
qed

subsection \<open>Closure under the product\<close>

text \<open>
  Claim C3 against the code. For two unit dual quaternions \<open>a\<close> and \<open>b\<close> that satisfy
  the rigid-motion invariant, \<open>a * b\<close> has the real part \<open>real_a * real_b\<close> and the
  dual part \<open>real_a * dual_b + dual_a * real_b\<close>, is an instance of
  \<^verbatim>\<open>UnitDualQuaternion\<close> and satisfies the invariant. Its norm is not \<open>(1, 0)\<close> in
  every run: the exact scalar part of \<open>b\<close> in \<^verbatim>\<open>norm\<close> is zero, so the computed one
  is the rounding error \<open>eb\<close>, and \<^verbatim>\<open>norm\<close> raises \<^verbatim>\<open>ValueError\<close> whenever that
  is negative; only with \<open>ea = eb = 0\<close> is the result \<open>(1, 0)\<close>. The witness is the
  product of the poses with rotation quaternions \<open>(1, 0, 0, 0)\<close> and
  \<open>(0, 0, 0.6, 0.8)\<close>, both with translation \<open>(0.1, 0.2, 0.3)\<close>, where a double
  evaluation of the formulas leaves \<open>a.s = 1\<close> and \<open>b.s = -2^-56\<close>.
\<close>

theorem unit_closure:
  assumes "cls a = UnitDualQuaternion_cls" and "cls b = UnitDualQuaternion_cls"
    and "rigid_invariant a" and "rigid_invariant b"
    and "real_q a = Some p" and "dual_q a = Some q"
    and "real_q b = Some p'" and "dual_q b = Some q'"
  shows "mul_dq r2q a (DQ b) =
           Inr (RDQ \<lparr>cls = UnitDualQuaternion_cls, real_q = Some (qqmul p p'),
                     dual_q = Some (qadd (qqmul p q') (qqmul q p'))\<rparr>)
         \<and> rigid_invariant \<lparr>cls = UnitDualQuaternion_cls, real_q = Some (qqmul p p'),
                     dual_q = Some (qadd (qqmul p q') (qqmul q p'))\<rparr>
         \<and> norm_dq ea eb \<lparr>cls = UnitDualQuaternion_cls, real_q = Some (qqmul p p'),
                     dual_q = Some (qadd (qqmul p q') (qqmul q p'))\<rparr> =
             (if 1 + ea < 0 then Inl ValueError
              else if eb < 0 then Inl ValueError
              else Inr (sqrt (1 + ea), sqrt eb))"
proof -
  have m: "mul_dq r2q a (DQ b) =
           Inr (RDQ \<lparr>cls = UnitDualQuaternion_cls, real_q = Some (qqmul p p'),
                     dual_q = Some (qadd (qqmul p q') (qqmul q p'))\<rparr>)"
    using mul_dq_full [OF assms(5-8), of r2q] assms(1) by simp
  have i: "rigid_invariant \<lparr>cls = UnitDualQuaternion_cls, real_q = Some (qqmul p p'),
                     dual_q = Some (qadd (qqmul p q') (qqmul q p'))\<rparr>"
    by (rule rigid_invariant_product [OF assms(3-8)])
  from m i norm_dq_rigid [OF i, of ea eb] show ?thesis by blast
qed

theorem unit_closure_witness:
  "mul_dq (\<lambda>M. Quaternion 1 0 0 0)
     \<lparr>cls = UnitDualQuaternion_cls, real_q = Some (Quaternion 1 0 0 0),
      dual_q = Some (Quaternion 0 (1 / 20) (1 / 10) (3 / 20))\<rparr>
     (DQ \<lparr>cls = UnitDualQuaternion_cls, real_q = Some (Quaternion 0 0 (3 / 5) (4 / 5)),
          dual_q = Some (Quaternion (- 9 / 50) (- 1 / 100) (- 1 / 25) (3 / 100))\<rparr>) =
     Inr (RDQ \<lparr>cls = UnitDualQuaternion_cls,
               real_q = Some (Quaternion 0 0 (3 / 5) (4 / 5)),
               dual_q = Some (Quaternion (- 9 / 25) (- 1 / 50) (- 2 / 25) (3 / 50))\<rparr>)
   \<and> rigid_invariant \<lparr>cls = UnitDualQuaternion_cls,
               real_q = Some (Quaternion 0 0 (3 / 5) (4 / 5)),
               dual_q = Some (Quaternion (- 9 / 25) (- 1 / 50) (- 2 / 25) (3 / 50))\<rparr>
   \<and> norm_dq 0 (- (1 / 2 ^ 56)) \<lparr>cls = UnitDualQuaternion_cls,
               real_q = Some (Quaternion 0 0 (3 / 5) (4 / 5)),
               dual_q = Some (Quaternion (- 9 / 25) (- 1 / 50) (- 2 / 25) (3 / 50))\<rparr> =
       Inl ValueError
   \<and> norm_dq 0 0 \<lparr>cls = UnitDualQuaternion_cls,
               real_q = Some (Quaternion 0 0 (3 / 5) (4 / 5)),
               dual_q = Some (Quaternion (- 9 / 25) (- 1 / 50) (- 2 / 25) (3 / 50))\<rparr> =
       Inr (1, 0)"
proof -
  let ?a = "\<lparr>cls = UnitDualQuaternion_cls, real_q = Some (Quaternion 1 0 0 0),
      dual_q = Some (Quaternion 0 (1 / 20) (1 / 10) (3 / 20))\<rparr>"
  let ?b = "\<lparr>cls = UnitDualQuaternion_cls, real_q = Some (Quaternion 0 0 (3 / 5) (4 / 5)),
          dual_q = Some (Quaternion (- 9 / 50) (- 1 / 100) (- 1 / 25) (3 / 100))\<rparr>"
  let ?c = "\<lparr>cls = UnitDualQuaternion_cls,
               real_q = Some (Quaternion 0 0 (3 / 5) (4 / 5)),
               dual_q = Some (Quaternion (- 9 / 25) (- 1 / 50) (- 2 / 25) (3 / 50))\<rparr>"
  have ia: "rigid_invariant ?a"
    by (simp add: rigid_invariant_def qnorm2_def q_v_def)
  have ib: "rigid_invariant ?b"
    by (simp add: rigid_invariant_def qnorm2_def q_v_def)
  have r: "qqmul (Quaternion 1 0 0 0) (Quaternion 0 0 (3 / 5) (4 / 5)) =
      Quaternion 0 0 (3 / 5) (4 / 5)"
    by simp
  have d: "qadd (qqmul (Quaternion 1 0 0 0) (Quaternion (- 9 / 50) (- 1 / 100) (- 1 / 25) (3 / 100)))
        (qqmul (Quaternion 0 (1 / 20) (1 / 10) (3 / 20)) (Quaternion 0 0 (3 / 5) (4 / 5))) =
      Quaternion (- 9 / 25) (- 1 / 50) (- 2 / 25) (3 / 50)"
    by simp
  have neg: "mul_dq (\<lambda>M. Quaternion 1 0 0 0) ?a (DQ ?b) = Inr (RDQ ?c)
      \<and> rigid_invariant ?c
      \<and> norm_dq 0 (- (1 / 2 ^ 56)) ?c =
          (if 1 + (0 :: real) < 0 then Inl ValueError
           else if - (1 / 2 ^ 56) < (0 :: real) then Inl ValueError
           else Inr (sqrt (1 + 0), sqrt (- (1 / 2 ^ 56))))"
    by (rule unit_closure [of ?a ?b "Quaternion 1 0 0 0"
      "Quaternion 0 (1 / 20) (1 / 10) (3 / 20)" "Quaternion 0 0 (3 / 5) (4 / 5)"
      "Quaternion (- 9 / 50) (- 1 / 100) (- 1 / 25) (3 / 100)" "\<lambda>M. Quaternion 1 0 0 0"
      0 "- (1 / 2 ^ 56)", OF _ _ ia ib, unfolded r d]) simp_all
  have zero: "norm_dq 0 0 ?c =
          (if 1 + (0 :: real) < 0 then Inl ValueError
           else if (0 :: real) < 0 then Inl ValueError
           else Inr (sqrt (1 + 0), sqrt 0))"
    using unit_closure [of ?a ?b "Quaternion 1 0 0 0"
      "Quaternion 0 (1 / 20) (1 / 10) (3 / 20)" "Quaternion 0 0 (3 / 5) (4 / 5)"
      "Quaternion (- 9 / 50) (- 1 / 100) (- 1 / 25) (3 / 100)" "\<lambda>M. Quaternion 1 0 0 0"
      0 0, OF _ _ ia ib, unfolded r d] by simp
  have n1: "norm_dq 0 (- (1 / 2 ^ 56)) ?c = Inl ValueError"
    using neg [THEN conjunct2, THEN conjunct2] by simp
  have n2: "norm_dq 0 0 ?c = Inr (1, 0)"
    using zero by simp
  from neg [THEN conjunct1] neg [THEN conjunct2, THEN conjunct1] n1 n2 show ?thesis
    by blast
qed

subsection \<open>The matrix form\<close>

lemma matvec_qmatrix: "matvec (qmatrix a) (q_vec b) = q_vec (qqmul a b)"
  by (cases a; cases b) (simp add: matvec_def q_vec_def algebra_simps)

lemma matvec_block:
  "matvec (np_block (qmatrix p) (np_zeros 4 4) (qmatrix q) (qmatrix p)) (q_vec p' @ q_vec q') =
     q_vec (qqmul p p') @ q_vec (qadd (qqmul p q') (qqmul q p'))"
  by (cases p; cases q; cases p'; cases q')
     (simp add: matvec_def np_block_def np_zeros_def q_vec_def eval_nat_numeral algebra_simps)

text \<open>
  Claim C4. For dual quaternions \<open>a\<close> and \<open>b\<close> with both parts set,
  \<^verbatim>\<open>a.matrix()\<close> is the 8x8 block matrix \<open>[[Re, 0], [Du, Re]]\<close> of the
  left-multiplication matrices of the real and the dual part of \<open>a\<close>, \<^verbatim>\<open>b.vec\<close> is the
  real part's four numbers followed by the dual part's, and
  \<^verbatim>\<open>a.matrix() @ b.vec\<close> is \<^verbatim>\<open>(a * b).vec\<close>.
\<close>

theorem matrix_consistency:
  assumes "real_q a = Some p" and "dual_q a = Some q"
    and "real_q b = Some p'" and "dual_q b = Some q'"
  shows "matrix_dq a = Inr (np_block (qmatrix p) (np_zeros 4 4) (qmatrix q) (qmatrix p))
         \<and> vec_dq b = Inr (q_vec p' @ q_vec q')
         \<and> mul_dq r2q a (DQ b) =
             Inr (RDQ \<lparr>cls = cls a, real_q = Some (qqmul p p'),
                       dual_q = Some (qadd (qqmul p q') (qqmul q p'))\<rparr>)
         \<and> vec_dq \<lparr>cls = cls a, real_q = Some (qqmul p p'),
                    dual_q = Some (qadd (qqmul p q') (qqmul q p'))\<rparr> =
             Inr (matvec (np_block (qmatrix p) (np_zeros 4 4) (qmatrix q) (qmatrix p))
                    (q_vec p' @ q_vec q'))"
  using assms
  by (simp add: matrix_dq_def vec_dq_def mul_dq_full [OF assms] matvec_block)

theorem matrix_consistency_witness:
  "matrix_dq \<lparr>cls = DualQuaternion_cls, real_q = Some (Quaternion 1 2 3 4),
              dual_q = Some (Quaternion 5 6 7 8)\<rparr> =
     Inr [[1, - 2, - 3, - 4, 0, 0, 0, 0],
          [2, 1, - 4, 3, 0, 0, 0, 0],
          [3, 4, 1, - 2, 0, 0, 0, 0],
          [4, - 3, 2, 1, 0, 0, 0, 0],
          [5, - 6, - 7, - 8, 1, - 2, - 3, - 4],
          [6, 5, - 8, 7, 2, 1, - 4, 3],
          [7, 8, 5, - 6, 3, 4, 1, - 2],
          [8, - 7, 6, 5, 4, - 3, 2, 1]]
   \<and> vec_dq \<lparr>cls = DualQuaternion_cls, real_q = Some (Quaternion 1 2 3 4),
              dual_q = Some (Quaternion 5 6 7 8)\<rparr> = Inr [1, 2, 3, 4, 5, 6, 7, 8]
   \<and> mul_dq (\<lambda>M. Quaternion 1 0 0 0)
        \<lparr>cls = DualQuaternion_cls, real_q = Some (Quaternion 1 2 3 4),
         dual_q = Some (Quaternion 5 6 7 8)\<rparr>
        (DQ \<lparr>cls = DualQuaternion_cls, real_q = Some (Quaternion 1 2 3 4),
             dual_q = Some (Quaternion 5 6 7 8)\<rparr>) =
       Inr (RDQ \<lparr>cls = DualQuaternion_cls, real_q = Some (Quaternion (- 28) 4 6 8),
                 dual_q = Some (Quaternion (- 120) 32 44 56)\<rparr>)
   \<and> vec_dq \<lparr>cls = DualQuaternion_cls, real_q = Some (Quaternion (- 28) 4 6 8),
              dual_q = Some (Quaternion (- 120) 32 44 56)\<rparr> =
       Inr [- 28, 4, 6, 8, - 120, 32, 44, 56]
   \<and> matvec
         [[1, - 2, - 3, - 4, 0, 0, 0, 0],
          [2, 1, - 4, 3, 0, 0, 0, 0],
          [3, 4, 1, - 2, 0, 0, 0, 0],
          [4, - 3, 2, 1, 0, 0, 0, 0],
          [5, - 6, - 7, - 8, 1, - 2, - 3, - 4],
          [6, 5, - 8, 7, 2, 1, - 4, 3],
          [7, 8, 5, - 6, 3, 4, 1, - 2],
          [8, - 7, 6, 5, 4, - 3, 2, 1]] [1, 2, 3, 4, 5, 6, 7, 8] =
       [- 28, 4, 6, 8, - 120, 32, 44, 56]"
proof -
  let ?d = "\<lparr>cls = DualQuaternion_cls, real_q = Some (Quaternion 1 2 3 4),
              dual_q = Some (Quaternion 5 6 7 8)\<rparr>"
  have M: "np_block (qmatrix (Quaternion 1 2 3 4)) (np_zeros 4 4) (qmatrix (Quaternion 5 6 7 8))
       (qmatrix (Quaternion 1 2 3 4)) =
         [[1, - 2, - 3, - 4, 0, 0, 0, 0],
          [2, 1, - 4, 3, 0, 0, 0, 0],
          [3, 4, 1, - 2, 0, 0, 0, 0],
          [4, - 3, 2, 1, 0, 0, 0, 0],
          [5, - 6, - 7, - 8, 1, - 2, - 3, - 4],
          [6, 5, - 8, 7, 2, 1, - 4, 3],
          [7, 8, 5, - 6, 3, 4, 1, - 2],
          [8, - 7, 6, 5, 4, - 3, 2, 1]]"
    by (simp add: np_block_def np_zeros_def eval_nat_numeral)
  have u: "q_vec (Quaternion 1 2 3 4) @ q_vec (Quaternion 5 6 7 8) = [1, 2, 3, 4, 5, 6, 7, 8]"
    by (simp add: q_vec_def)
  have r: "qqmul (Quaternion 1 2 3 4) (Quaternion 1 2 3 4) = Quaternion (- 28) 4 6 8"
    by simp
  have d: "qadd (qqmul (Quaternion 1 2 3 4) (Quaternion 5 6 7 8))
             (qqmul (Quaternion 5 6 7 8) (Quaternion 1 2 3 4)) = Quaternion (- 120) 32 44 56"
    by simp
  have c: "cls ?d = DualQuaternion_cls" by simp
  have mv: "matvec
         [[1, - 2, - 3, - 4, 0, 0, 0, 0],
          [2, 1, - 4, 3, 0, 0, 0, 0],
          [3, 4, 1, - 2, 0, 0, 0, 0],
          [4, - 3, 2, 1, 0, 0, 0, 0],
          [5, - 6, - 7, - 8, 1, - 2, - 3, - 4],
          [6, 5, - 8, 7, 2, 1, - 4, 3],
          [7, 8, 5, - 6, 3, 4, 1, - 2],
          [8, - 7, 6, 5, 4, - 3, 2, 1]] [1, 2, 3, 4, 5, 6, 7, 8 :: real] =
       [- 28, 4, 6, 8, - 120, 32, 44, 56]"
    by (simp add: matvec_def)
  note mc = matrix_consistency [of ?d "Quaternion 1 2 3 4" "Quaternion 5 6 7 8" ?d
      "Quaternion 1 2 3 4" "Quaternion 5 6 7 8" "\<lambda>M. Quaternion 1 0 0 0",
      unfolded M u r d c mv]
  have "matrix_dq ?d =
     Inr [[1, - 2, - 3, - 4, 0, 0, 0, 0],
          [2, 1, - 4, 3, 0, 0, 0, 0],
          [3, 4, 1, - 2, 0, 0, 0, 0],
          [4, - 3, 2, 1, 0, 0, 0, 0],
          [5, - 6, - 7, - 8, 1, - 2, - 3, - 4],
          [6, 5, - 8, 7, 2, 1, - 4, 3],
          [7, 8, 5, - 6, 3, 4, 1, - 2],
          [8, - 7, 6, 5, 4, - 3, 2, 1]]
   \<and> vec_dq ?d = Inr [1, 2, 3, 4, 5, 6, 7, 8]
   \<and> mul_dq (\<lambda>M. Quaternion 1 0 0 0) ?d (DQ ?d) =
       Inr (RDQ \<lparr>cls = DualQuaternion_cls, real_q = Some (Quaternion (- 28) 4 6 8),
                 dual_q = Some (Quaternion (- 120) 32 44 56)\<rparr>)
   \<and> vec_dq \<lparr>cls = DualQuaternion_cls, real_q = Some (Quaternion (- 28) 4 6 8),
              dual_q = Some (Quaternion (- 120) 32 44 56)\<rparr> =
       Inr [- 28, 4, 6, 8, - 120, 32, 44, 56]"
    by (rule mc) simp_all
  with mv show ?thesis by blast
qed

subsection \<open>The class of a product\<close>

text \<open>
  Claim C5. In the product branch of \<^verbatim>\<open>__mul__\<close> the class of the result is the
  class of the left operand, whatever the class of the right operand: a
  \<^verbatim>\<open>UnitDualQuaternion\<close> times a plain \<^verbatim>\<open>DualQuaternion\<close> is a
  \<^verbatim>\<open>UnitDualQuaternion\<close>. The witness is such a product that does not satisfy the
  rigid-motion invariant.
\<close>

theorem tag_from_left_operand:
  assumes "real_q a = Some p" and "dual_q a = Some q"
    and "real_q b = Some p'" and "dual_q b = Some q'"
  shows "mul_dq r2q a (DQ b) =
           Inr (RDQ \<lparr>cls = cls a, real_q = Some (qqmul p p'),
                     dual_q = Some (qadd (qqmul p q') (qqmul q p'))\<rparr>)"
  by (rule mul_dq_full [OF assms])

theorem tag_from_left_operand_witness:
  "mul_dq (\<lambda>M. Quaternion 1 0 0 0)
     \<lparr>cls = UnitDualQuaternion_cls, real_q = Some (Quaternion 1 0 0 0),
      dual_q = Some (Quaternion 0 0 0 0)\<rparr>
     (DQ \<lparr>cls = DualQuaternion_cls, real_q = Some (Quaternion 2 0 0 0),
          dual_q = Some (Quaternion 1 0 0 0)\<rparr>) =
     Inr (RDQ \<lparr>cls = UnitDualQuaternion_cls, real_q = Some (Quaternion 2 0 0 0),
               dual_q = Some (Quaternion 1 0 0 0)\<rparr>)
   \<and> rigid_invariant \<lparr>cls = UnitDualQuaternion_cls, real_q = Some (Quaternion 1 0 0 0),
      dual_q = Some (Quaternion 0 0 0 0)\<rparr>
   \<and> \<not> rigid_invariant \<lparr>cls = UnitDualQuaternion_cls, real_q = Some (Quaternion 2 0 0 0),
               dual_q = Some (Quaternion 1 0 0 0)\<rparr>"
proof -
  let ?a = "\<lparr>cls = UnitDualQuaternion_cls, real_q = Some (Quaternion 1 0 0 0),
      dual_q = Some (Quaternion 0 0 0 0)\<rparr>"
  let ?b = "\<lparr>cls = DualQuaternion_cls, real_q = Some (Quaternion 2 0 0 0),
          dual_q = Some (Quaternion 1 0 0 0)\<rparr>"
  have r: "qqmul (Quaternion 1 0 0 0) (Quaternion 2 0 0 0) = Quaternion 2 0 0 0"
    by simp
  have d: "qadd (qqmul (Quaternion 1 0 0 0) (Quaternion 1 0 0 0))
             (qqmul (Quaternion 0 0 0 0) (Quaternion 2 0 0 0)) = Quaternion 1 0 0 0"
    by simp
  have c: "cls ?a = UnitDualQuaternion_cls" by simp
  note tg = tag_from_left_operand [of ?a "Quaternion 1 0 0 0" "Quaternion 0 0 0 0" ?b
      "Quaternion 2 0 0 0" "Quaternion 1 0 0 0" "\<lambda>M. Quaternion 1 0 0 0", unfolded r d c]
  have m: "mul_dq (\<lambda>M. Quaternion 1 0 0 0) ?a (DQ ?b) =
     Inr (RDQ \<lparr>cls = UnitDualQuaternion_cls, real_q = Some (Quaternion 2 0 0 0),
               dual_q = Some (Quaternion 1 0 0 0)\<rparr>)"
    by (rule tg) simp_all
  have i: "rigid_invariant ?a"
    by (simp add: rigid_invariant_def qnorm2_def q_v_def)
  have n: "\<not> rigid_invariant \<lparr>cls = UnitDualQuaternion_cls, real_q = Some (Quaternion 2 0 0 0),
               dual_q = Some (Quaternion 1 0 0 0)\<rparr>"
    by (simp add: rigid_invariant_def qnorm2_def)
  from m i n show ?thesis by blast
qed

subsection \<open>The norm\<close>

text \<open>
  Claim C6 against the code. \<^verbatim>\<open>norm()\<close> does not return a pair for every dual
  quaternion with both parts set, and not \<open>(1, 0)\<close> for every unit dual quaternion made
  from a pose, though its docstring promises a 2-tuple and \<open>(1, 0)\<close>: the square root of
  \<^verbatim>\<open>b.s\<close> is taken unguarded. For the real part \<open>(1, 0, 0, 0)\<close> and the dual part
  \<open>(-1, 0, 0, 0)\<close>, where the arithmetic is exact, \<^verbatim>\<open>b.s\<close> is \<open>-2\<close> and
  \<^verbatim>\<open>ValueError\<close> is raised. For the pose with rotation quaternion \<open>(0, 0, 0.6, 0.8)\<close>
  and translation \<open>(0.1, 0.2, 0.3)\<close> the exact \<^verbatim>\<open>b.s\<close> is zero, a double evaluation of
  the formulas leaves \<open>-2^-57\<close>, and \<^verbatim>\<open>ValueError\<close> is raised again.
\<close>

theorem norm_raises_value_error:
  "norm_dq 0 0 \<lparr>cls = DualQuaternion_cls, real_q = Some (Quaternion 1 0 0 0),
            dual_q = Some (Quaternion (- 1) 0 0 0)\<rparr> = Inl ValueError
   \<and> (case UnitDualQuaternion (\<lambda>M. Quaternion 0 0 (3 / 5) (4 / 5))
        (APose \<lparr>R = ((- 1, 0, 0), (0, - 7 / 25, 24 / 25), (0, 24 / 25, 7 / 25)),
                t = (1 / 10, 1 / 5, 3 / 10)\<rparr>) ANone of
         Inl e \<Rightarrow> Inl e | Inr u \<Rightarrow> norm_dq 0 (- (1 / 2 ^ 57)) u) = Inl ValueError"
proof -
  let ?r2q = "\<lambda>M :: mat3. Quaternion 0 0 (3 / 5) (4 / 5)"
  let ?T = "\<lparr>R = ((- 1, 0, 0), (0, - 7 / 25, 24 / 25), (0, 24 / 25, 7 / 25)),
                t = (1 / 10, 1 / 5, 3 / 10)\<rparr> :: SE3"
  have a: "norm_dq 0 0 \<lparr>cls = DualQuaternion_cls, real_q = Some (Quaternion 1 0 0 0),
            dual_q = Some (Quaternion (- 1) 0 0 0)\<rparr> = Inl ValueError"
    by (simp add: norm_dq_def base_sqrt_def)
  have u: "qnorm2 (?r2q (R ?T)) = 1"
    by (simp add: qnorm2_def)
  have "norm_dq 0 (- (1 / 2 ^ 57)) \<lparr>cls = UnitDualQuaternion_cls, real_q = Some (?r2q (R ?T)),
          dual_q = Some (qqmul (qscale (1 / 2) (Pure_q (t ?T))) (?r2q (R ?T)))\<rparr> =
        Inl ValueError"
    using norm_dq_rigid [OF rigid_invariant_pose [of ?r2q ?T UnitDualQuaternion_cls, OF u],
        of 0 "- (1 / 2 ^ 57)"]
    by simp
  then have b: "(case UnitDualQuaternion ?r2q (APose ?T) ANone of
         Inl e \<Rightarrow> Inl e | Inr u \<Rightarrow> norm_dq 0 (- (1 / 2 ^ 57)) u) = Inl ValueError"
    by (simp add: UnitDualQuaternion_pose)
  from a b show ?thesis by blast
qed

subsection \<open>The empty dual quaternion\<close>

text \<open>
  Claim C7. On the empty dual quaternion no operation returns a value; each one fails
  with an exception that signals the programmer's error. Addition, subtraction and
  multiplication (with the empty object as either operand), \<^verbatim>\<open>matrix()\<close> and
  \<^verbatim>\<open>vec\<close> fail in their \<^verbatim>\<open>assert\<close> statements; \<^verbatim>\<open>conj()\<close> and \<^verbatim>\<open>norm()\<close> fail
  in the method call on \<^verbatim>\<open>None\<close>. On operands with both parts set, addition and
  subtraction return a new \<^verbatim>\<open>DualQuaternion\<close> whose parts are the sums and the
  differences of the operands' parts.
\<close>

theorem empty_operations_fail:
  assumes "real_q e = None" and "dual_q e = None"
    and "real_q a = Some p" and "dual_q a = Some q"
    and "real_q b = Some p'" and "dual_q b = Some q'"
  shows "add_dq e x = Inl AssertionError \<and> add_dq a e = Inl AssertionError
       \<and> sub_dq e x = Inl AssertionError \<and> sub_dq a e = Inl AssertionError
       \<and> mul_dq r2q e y = Inl AssertionError \<and> mul_dq r2q a (DQ e) = Inl AssertionError
       \<and> matrix_dq e = Inl AssertionError \<and> vec_dq e = Inl AssertionError
       \<and> conj_dq e = Inl AttributeError \<and> norm_dq ea eb e = Inl AttributeError
       \<and> add_dq a b = Inr \<lparr>cls = DualQuaternion_cls, real_q = Some (qadd p p'),
                            dual_q = Some (qadd q q')\<rparr>
       \<and> sub_dq a b = Inr \<lparr>cls = DualQuaternion_cls, real_q = Some (qsub p p'),
                            dual_q = Some (qsub q q')\<rparr>"
  using assms
  by (simp add: add_dq_def sub_dq_def mul_dq_def matrix_dq_def vec_dq_def conj_dq_def
      norm_dq_def DualQuaternion_quats)

theorem empty_operations_fail_witness:
  "add_dq \<lparr>cls = DualQuaternion_cls, real_q = None, dual_q = None\<rparr>
      \<lparr>cls = DualQuaternion_cls, real_q = Some (Quaternion 1 2 3 4),
       dual_q = Some (Quaternion 5 6 7 8)\<rparr> = Inl AssertionError
   \<and> mul_dq (\<lambda>M. Quaternion 1 0 0 0)
        \<lparr>cls = DualQuaternion_cls, real_q = None, dual_q = None\<rparr> (Vec [1, 2, 3]) =
       Inl AssertionError
   \<and> matrix_dq \<lparr>cls = DualQuaternion_cls, real_q = None, dual_q = None\<rparr> = Inl AssertionError
   \<and> vec_dq \<lparr>cls = DualQuaternion_cls, real_q = None, dual_q = None\<rparr> = Inl AssertionError
   \<and> conj_dq \<lparr>cls = DualQuaternion_cls, real_q = None, dual_q = None\<rparr> = Inl AttributeError
   \<and> norm_dq 0 0 \<lparr>cls = DualQuaternion_cls, real_q = None, dual_q = None\<rparr> = Inl AttributeError
   \<and> add_dq \<lparr>cls = DualQuaternion_cls, real_q = Some (Quaternion 1 2 3 4),
              dual_q = Some (Quaternion 5 6 7 8)\<rparr>
             \<lparr>cls = UnitDualQuaternion_cls, real_q = Some (Quaternion 1 0 0 0),
              dual_q = Some (Quaternion 0 1 0 0)\<rparr> =
       Inr \<lparr>cls = DualQuaternion_cls, real_q = Some (Quaternion 2 2 3 4),
            dual_q = Some (Quaternion 5 7 7 8)\<rparr>
   \<and> sub_dq \<lparr>cls = DualQuaternion_cls, real_q = Some (Quaternion 1 2 3 4),
              dual_q = Some (Quaternion 5 6 7 8)\<rparr>
             \<lparr>cls = UnitDualQuaternion_cls, real_q = Some (Quaternion 1 0 0 0),
              dual_q = Some (Quaternion 0 1 0 0)\<rparr> =
       Inr \<lparr>cls = DualQuaternion_cls, real_q = Some (Quaternion 0 2 3 4),
            dual_q = Some (Quaternion 5 5 7 8)\<rparr>"
proof -
  let ?e = "\<lparr>cls = DualQuaternion_cls, real_q = None, dual_q = None\<rparr>"
  let ?a = "\<lparr>cls = DualQuaternion_cls, real_q = Some (Quaternion 1 2 3 4),
              dual_q = Some (Quaternion 5 6 7 8)\<rparr>"
  let ?b = "\<lparr>cls = UnitDualQuaternion_cls, real_q = Some (Quaternion 1 0 0 0),
              dual_q = Some (Quaternion 0 1 0 0)\<rparr>"
  have s: "qadd (Quaternion 1 2 3 4) (Quaternion 1 0 0 0) = Quaternion 2 2 3 4"
    "qadd (Quaternion 5 6 7 8) (Quaternion 0 1 0 0) = Quaternion 5 7 7 8"
    "qsub (Quaternion 1 2 3 4) (Quaternion 1 0 0 0) = Quaternion 0 2 3 4"
    "qsub (Quaternion 5 6 7 8) (Quaternion 0 1 0 0) = Quaternion 5 5 7 8"
    by simp_all
  have f: "add_dq ?e ?a = Inl AssertionError \<and> add_dq ?a ?e = Inl AssertionError
       \<and> sub_dq ?e ?a = Inl AssertionError \<and> sub_dq ?a ?e = Inl AssertionError
       \<and> mul_dq (\<lambda>M. Quaternion 1 0 0 0) ?e (Vec [1, 2, 3]) = Inl AssertionError
       \<and> mul_dq (\<lambda>M. Quaternion 1 0 0 0) ?a (DQ ?e) = Inl AssertionError
       \<and> matrix_dq ?e = Inl AssertionError \<and> vec_dq ?e = Inl AssertionError
       \<and> conj_dq ?e = Inl AttributeError \<and> norm_dq 0 0 ?e = Inl AttributeError
       \<and> add_dq ?a ?b = Inr \<lparr>cls = DualQuaternion_cls, real_q = Some (Quaternion 2 2 3 4),
                            dual_q = Some (Quaternion 5 7 7 8)\<rparr>
       \<and> sub_dq ?a ?b = Inr \<lparr>cls = DualQuaternion_cls, real_q = Some (Quaternion 0 2 3 4),
                            dual_q = Some (Quaternion 5 5 7 8)\<rparr>"
    by (rule empty_operations_fail [of ?e ?a "Quaternion 1 2 3 4" "Quaternion 5 6 7 8" ?b
          "Quaternion 1 0 0 0" "Quaternion 0 1 0 0" ?a "\<lambda>M. Quaternion 1 0 0 0" "Vec [1, 2, 3]"
          0 0,
          unfolded s]) simp_all
  then show ?thesis by blast
qed

subsection \<open>Construction\<close>

lemma list8:
  "length xs = 8 \<Longrightarrow> xs = [xs ! 0, xs ! 1, xs ! 2, xs ! 3, xs ! 4, xs ! 5, xs ! 6, xs ! 7]"
  by (auto simp: length_Suc_conv eval_nat_numeral)

lemma DualQuaternion_vec8:
  "DualQuaternion (AVec [a0, a1, a2, a3, a4, a5, a6, a7]) ANone =
     Inr \<lparr>cls = DualQuaternion_cls, real_q = Some (Quaternion a0 a1 a2 a3),
          dual_q = Some (Quaternion a4 a5 a6 a7)\<rparr>"
  by (simp add: DualQuaternion_def DualQuaternion_init_def)

text \<open>
  Claim C8. \<^verbatim>\<open>DualQuaternion(real, dual)\<close> raises \<^verbatim>\<open>ValueError\<close> when one of two
  given arguments is not a quaternion, and stores two quaternions as they are;
  \<^verbatim>\<open>DualQuaternion(v)\<close> on eight numbers makes the real part of the numbers 0..3 and the
  dual part of the numbers 4..7; a vector of another length, a single argument that is
  not a vector of eight numbers, and a dual part without a real part raise
  \<^verbatim>\<open>ValueError\<close>.
\<close>

theorem construction_fail_fast:
  "(real' \<noteq> ANone \<and> dual' \<noteq> ANone
      \<and> (\<not> isinstance_Quaternion real' \<or> \<not> isinstance_Quaternion dual')
      \<longrightarrow> DualQuaternion real' dual' = Inl ValueError)
   \<and> DualQuaternion (AQuat p) (AQuat q) =
       Inr \<lparr>cls = DualQuaternion_cls, real_q = Some p, dual_q = Some q\<rparr>
   \<and> (length xs = 8 \<longrightarrow> DualQuaternion (AVec xs) ANone =
       Inr \<lparr>cls = DualQuaternion_cls,
            real_q = Some (Quaternion (xs ! 0) (xs ! 1) (xs ! 2) (xs ! 3)),
            dual_q = Some (Quaternion (xs ! 4) (xs ! 5) (xs ! 6) (xs ! 7))\<rparr>)
   \<and> (length xs \<noteq> 8 \<longrightarrow> DualQuaternion (AVec xs) ANone = Inl ValueError)
   \<and> (real' \<noteq> ANone \<and> \<not> isvector real' 8 \<longrightarrow> DualQuaternion real' ANone = Inl ValueError)
   \<and> (dual' \<noteq> ANone \<longrightarrow> DualQuaternion ANone dual' = Inl ValueError)"
proof -
  have a: "real' \<noteq> ANone \<and> dual' \<noteq> ANone
      \<and> (\<not> isinstance_Quaternion real' \<or> \<not> isinstance_Quaternion dual')
      \<longrightarrow> DualQuaternion real' dual' = Inl ValueError"
    by (auto simp: DualQuaternion_def DualQuaternion_init_def)
  have c: "length xs = 8 \<longrightarrow> DualQuaternion (AVec xs) ANone =
       Inr \<lparr>cls = DualQuaternion_cls,
            real_q = Some (Quaternion (xs ! 0) (xs ! 1) (xs ! 2) (xs ! 3)),
            dual_q = Some (Quaternion (xs ! 4) (xs ! 5) (xs ! 6) (xs ! 7))\<rparr>"
  proof
    assume "length xs = 8"
    then have "xs = [xs ! 0, xs ! 1, xs ! 2, xs ! 3, xs ! 4, xs ! 5, xs ! 6, xs ! 7]"
      by (rule list8)
    then obtain a0 a1 a2 a3 a4 a5 a6 a7 where xs: "xs = [a0, a1, a2, a3, a4, a5, a6, a7]"
      by blast
    show "DualQuaternion (AVec xs) ANone =
       Inr \<lparr>cls = DualQuaternion_cls,
            real_q = Some (Quaternion (xs ! 0) (xs ! 1) (xs ! 2) (xs ! 3)),
            dual_q = Some (Quaternion (xs ! 4) (xs ! 5) (xs ! 6) (xs ! 7))\<rparr>"
      unfolding xs DualQuaternion_vec8 by simp
  qed
  have d: "length xs \<noteq> 8 \<longrightarrow> DualQuaternion (AVec xs) ANone = Inl ValueError"
    by (simp add: DualQuaternion_def DualQuaternion_init_def)
  have e: "real' \<noteq> ANone \<and> \<not> isvector real' 8 \<longrightarrow> DualQuaternion real' ANone = Inl ValueError"
    by (simp add: DualQuaternion_def DualQuaternion_init_def)
  have f: "dual' \<noteq> ANone \<longrightarrow> DualQuaternion ANone dual' = Inl ValueError"
    by (simp add: DualQuaternion_def DualQuaternion_init_def)
  from a c d e f show ?thesis
    by (simp only: DualQuaternion_quats simp_thms)
qed

theorem construction_fail_fast_witness:
  "DualQuaternion (AQuat (Quaternion 1 2 3 4)) AOther = Inl ValueError
   \<and> DualQuaternion (AVec [1, 2, 3, 4]) (AQuat (Quaternion 5 6 7 8)) = Inl ValueError
   \<and> DualQuaternion (AQuat (Quaternion 1 2 3 4)) (AQuat (Quaternion 5 6 7 8)) =
       Inr \<lparr>cls = DualQuaternion_cls, real_q = Some (Quaternion 1 2 3 4),
            dual_q = Some (Quaternion 5 6 7 8)\<rparr>
   \<and> DualQuaternion (AVec [1, 2, 3, 4, 5, 6, 7, 8]) ANone =
       Inr \<lparr>cls = DualQuaternion_cls, real_q = Some (Quaternion 1 2 3 4),
            dual_q = Some (Quaternion 5 6 7 8)\<rparr>
   \<and> DualQuaternion (AVec [1, 2, 3]) ANone = Inl ValueError
   \<and> DualQuaternion (AQuat (Quaternion 1 2 3 4)) ANone = Inl ValueError
   \<and> DualQuaternion ANone (AQuat (Quaternion 5 6 7 8)) = Inl ValueError"
proof -
  let ?p = "Quaternion 1 2 3 4" and ?q = "Quaternion 5 6 7 8"
  have 1: "DualQuaternion (AQuat ?p) AOther = Inl ValueError"
    using construction_fail_fast [of "AQuat ?p" AOther ?p ?q "[]", THEN conjunct1] by simp
  have 2: "DualQuaternion (AVec [1, 2, 3, 4]) (AQuat ?q) = Inl ValueError"
    using construction_fail_fast [of "AVec [1, 2, 3, 4]" "AQuat ?q" ?p ?q "[]", THEN conjunct1]
    by simp
  note rest = construction_fail_fast [of "AQuat ?p" "AQuat ?q" ?p ?q "[1, 2, 3, 4, 5, 6, 7, 8]",
      THEN conjunct2]
  have 3: "DualQuaternion (AQuat ?p) (AQuat ?q) =
       Inr \<lparr>cls = DualQuaternion_cls, real_q = Some ?p, dual_q = Some ?q\<rparr>"
    using rest [THEN conjunct1] .
  have 4: "DualQuaternion (AVec [1, 2, 3, 4, 5, 6, 7, 8]) ANone =
       Inr \<lparr>cls = DualQuaternion_cls, real_q = Some ?p, dual_q = Some ?q\<rparr>"
    using rest [THEN conjunct2, THEN conjunct1] by simp
  note rest' = construction_fail_fast [of "AQuat ?p" "AQuat ?q" ?p ?q "[1, 2, 3]",
      THEN conjunct2, THEN conjunct2, THEN conjunct2]
  have 5: "DualQuaternion (AVec [1, 2, 3]) ANone = Inl ValueError"
    using rest' [THEN conjunct1] by simp
  have 6: "DualQuaternion (AQuat ?p) ANone = Inl ValueError"
    using rest' [THEN conjunct2, THEN conjunct1] by simp
  have 7: "DualQuaternion ANone (AQuat ?q) = Inl ValueError"
    using rest' [THEN conjunct2, THEN conjunct2] by simp
  from 1 2 3 4 5 6 7 show ?thesis by blast
qed

subsection \<open>Transforming a point\<close>

lemma Pure_vec3:
  "Pure [a, b, c] =
     Inr \<lparr>cls = DualQuaternion_cls, real_q = Some (Quaternion 1 0 0 0),
          dual_q = Some (Quaternion 0 a b c)\<rparr>"
  by (simp add: Pure_def DualQuaternion_quats UnitQuaternion_id_def)

lemma sandwich_vector:
  "q_v (qadd (qqmul (qqmul p (Quaternion 1 0 0 0)) (qconj q))
          (qqmul (qadd (qqmul p (Quaternion 0 a b c)) (qqmul q (Quaternion 1 0 0 0))) (qconj p))) =
     vec3_add (mat3_vec (q2r p) (a, b, c))
       ((qnorm2 p - 1) * a, (qnorm2 p - 1) * b, (qnorm2 p - 1) * c)"
  by (cases p; cases q) (simp add: q_v_def qnorm2_def algebra_simps)

lemma transform_point_rotates:
  assumes "real_q d = Some p" and "dual_q d = Some q" and "qnorm2 p = 1"
  shows "transform_point r2q d [a, b, c] = Inr (mat3_vec (q2r p) (a, b, c))"
proof -
  let ?pv = "\<lparr>cls = DualQuaternion_cls, real_q = Some (Quaternion 1 0 0 0),
          dual_q = Some (Quaternion 0 a b c)\<rparr>"
  let ?sp = "\<lparr>cls = cls d, real_q = Some (qqmul p (Quaternion 1 0 0 0)),
          dual_q = Some (qadd (qqmul p (Quaternion 0 a b c)) (qqmul q (Quaternion 1 0 0 0)))\<rparr>"
  let ?sc = "\<lparr>cls = DualQuaternion_cls, real_q = Some (qconj p), dual_q = Some (qconj q)\<rparr>"
  have m1: "mul_DQ r2q d ?pv = Inr ?sp"
    by (rule mul_DQ_full [OF assms(1,2)]) simp_all
  have m2: "mul_DQ r2q ?sp ?sc =
      Inr \<lparr>cls = cls d, real_q = Some (qqmul (qqmul p (Quaternion 1 0 0 0)) (qconj p)),
        dual_q = Some (qadd (qqmul (qqmul p (Quaternion 1 0 0 0)) (qconj q))
          (qqmul (qadd (qqmul p (Quaternion 0 a b c)) (qqmul q (Quaternion 1 0 0 0)))
             (qconj p)))\<rparr>"
    using mul_DQ_full [of ?sp _ _ ?sc "qconj p" "qconj q" r2q] by simp
  obtain w1 w2 w3 where w: "mat3_vec (q2r p) (a, b, c) = (w1, w2, w3)"
    by (cases "mat3_vec (q2r p) (a, b, c)")
  show ?thesis
    unfolding transform_point_def Pure_vec3
    by (simp add: m1 conj_dq_full [OF assms(1,2)] m2 sandwich_vector assms(3) w)
qed

text \<open>
  Claim C2 against the code. For a unit dual quaternion \<open>d\<close> constructed from any pose
  and any array-like \<open>v\<close>, \<^verbatim>\<open>d * v\<close> raises \<^verbatim>\<open>AttributeError\<close> in the second
  assertion of \<^verbatim>\<open>__mul__\<close>, so the point branch is never reached. The body of that
  branch, evaluated on its own, does not give \<open>R @ v + t\<close> either: by
  \<open>transform_point_rotates\<close> it gives \<open>R @ v\<close>, since \<^verbatim>\<open>conj()\<close> conjugates the dual
  part without negating it. At the identity rotation with translation \<open>(1, 0, 0)\<close> and
  the point \<open>(0, 0, 0)\<close> the claim's value is \<open>(1, 0, 0)\<close> and the branch's value is
  \<open>(0, 0, 0)\<close>.
\<close>

theorem point_transform_divergence:
  "(case UnitDualQuaternion r2q (APose T) ANone of
      Inl e \<Rightarrow> Inl e | Inr d \<Rightarrow> mul_dq r2q d (Vec v)) = Inl AttributeError
   \<and> UnitDualQuaternion (\<lambda>M. Quaternion 1 0 0 0)
        (APose \<lparr>R = ((1, 0, 0), (0, 1, 0), (0, 0, 1)), t = (1, 0, 0)\<rparr>) ANone =
       Inr \<lparr>cls = UnitDualQuaternion_cls, real_q = Some (Quaternion 1 0 0 0),
            dual_q = Some (Quaternion 0 (1 / 2) 0 0)\<rparr>
   \<and> transform_point (\<lambda>M. Quaternion 1 0 0 0)
        \<lparr>cls = UnitDualQuaternion_cls, real_q = Some (Quaternion 1 0 0 0),
         dual_q = Some (Quaternion 0 (1 / 2) 0 0)\<rparr> [0, 0, 0] = Inr (0, 0, 0)
   \<and> vec3_add (mat3_vec ((1, 0, 0), (0, 1, 0), (0, 0, 1)) (0, 0, 0)) (1, 0, 0) = (1, 0, 0)"
proof -
  have a: "(case UnitDualQuaternion r2q (APose T) ANone of
      Inl e \<Rightarrow> Inl e | Inr d \<Rightarrow> mul_dq r2q d (Vec v)) = Inl AttributeError"
    by (simp add: UnitDualQuaternion_pose mul_dq_Vec)
  have b: "UnitDualQuaternion (\<lambda>M. Quaternion 1 0 0 0)
        (APose \<lparr>R = ((1, 0, 0), (0, 1, 0), (0, 0, 1)), t = (1, 0, 0)\<rparr>) ANone =
       Inr \<lparr>cls = UnitDualQuaternion_cls, real_q = Some (Quaternion 1 0 0 0),
            dual_q = Some (Quaternion 0 (1 / 2) 0 0)\<rparr>"
    by (simp add: UnitDualQuaternion_pose)
  have c: "transform_point (\<lambda>M. Quaternion 1 0 0 0)
        \<lparr>cls = UnitDualQuaternion_cls, real_q = Some (Quaternion 1 0 0 0),
         dual_q = Some (Quaternion 0 (1 / 2) 0 0)\<rparr> [0, 0, 0] = Inr (0, 0, 0)"
    using transform_point_rotates [of "\<lparr>cls = UnitDualQuaternion_cls,
         real_q = Some (Quaternion 1 0 0 0), dual_q = Some (Quaternion 0 (1 / 2) 0 0)\<rparr>"
         "Quaternion 1 0 0 0" "Quaternion 0 (1 / 2) 0 0" "\<lambda>M. Quaternion 1 0 0 0" 0 0 0]
    by (simp add: qnorm2_def)
  from a b c show ?thesis by simp
qed

end
